theory Spec2Isabelle
  imports Complex_Main "HOL-Library.Char_ord" "HOL-Library.List_Lexorder"
begin

section \<open>JavaScript numbers\<close>

text \<open>
  A JavaScript \<^verbatim>\<open>number\<close> is an IEEE 754 binary64 value: a finite number, one of the two
  zeros, an infinity or \<^verbatim>\<open>NaN\<close>. A finite value is carried as the rational it denotes
  (\<open>Finite 0\<close> is \<^verbatim>\<open>+0\<close>, \<open>NegZero\<close> is \<^verbatim>\<open>-0\<close>), and every arithmetic operation
  rounds its exact result back into the format with \<open>round64\<close>.
\<close>

datatype jsnum = Finite rat | NegZero | PosInf | NegInf | NaN

text \<open>\<open>pow2n n\<close> is \<open>2 ^ n\<close> by repeated squaring, \<open>pow2 e\<close> is \<open>2\<close> to an integer power.\<close>

function pow2n :: "int \<Rightarrow> rat" where
  "pow2n n =
     (if n \<le> 0 then 1
      else let h = pow2n (n div 2) in if even n then h * h else 2 * (h * h))"
  by pat_completeness auto
termination
  by (relation "measure nat") auto

declare pow2n.simps [simp del]

definition pow2 :: "int \<Rightarrow> rat" where
  "pow2 e = (if 0 \<le> e then pow2n e else 1 / pow2n (- e))"

text \<open>The number of binary digits of a positive integer.\<close>

function bit_length :: "int \<Rightarrow> int" where
  "bit_length n = (if n \<le> 0 then 0 else 1 + bit_length (n div 2))"
  by pat_completeness auto
termination
  by (relation "measure nat") auto

declare bit_length.simps [simp del]

text \<open>
  The binary exponent of a positive rational \<open>x = a / b\<close>, that is the \<open>e\<close> with
  \<open>2 ^ e \<le> x < 2 ^ (e + 1)\<close>: the difference of the two bit lengths, or one less.
\<close>

definition ilog2 :: "rat \<Rightarrow> int" where
  "ilog2 x =
     (let (a, b) = quotient_of x;
          k = bit_length a - bit_length b
      in if pow2 k \<le> x then k else k - 1)"

text \<open>Rounding to the nearest integer, a tie going to the even one.\<close>

definition round_half_even :: "rat \<Rightarrow> int" where
  "round_half_even y =
     (let f = \<lfloor>y\<rfloor>; d = y - of_int f
      in if d < 1 / 2 then f
         else if 1 / 2 < d then f + 1
         else if even f then f else f + 1)"

text \<open>
  Rounding of an exact result to binary64, round-to-nearest, ties-to-even. With \<open>e\<close>
  the exponent of \<open>x\<close> (not below \<open>-1022\<close>, where the subnormal numbers begin), the
  representable numbers around \<open>x\<close> are the multiples of \<open>q = 2 ^ (e - 52)\<close> and \<open>x\<close>
  goes to \<open>n * q\<close> with \<open>n\<close> the rounded quotient, \<open>\<bar>n\<bar> \<le> 2 ^ 53\<close>. The result
  overflows to an infinity when \<open>\<bar>n * q\<bar>\<close> reaches \<open>2 ^ 1024\<close>, which is when
  \<open>e > 1023\<close>, or \<open>e = 1023\<close> and \<open>\<bar>n\<bar> = 2 ^ 53 = 9007199254740992\<close>; a result that
  rounds to zero keeps the sign of \<open>x\<close>.
\<close>

definition round64 :: "rat \<Rightarrow> jsnum" where
  "round64 x =
     (if x = 0 then Finite 0
      else
        let e = max (ilog2 \<bar>x\<bar>) (- 1022);
            q = pow2 (e - 52);
            n = round_half_even (x / q)
        in if 1023 < e \<or> (e = 1023 \<and> 9007199254740992 \<le> \<bar>n\<bar>)
           then (if 0 < x then PosInf else NegInf)
           else if n = 0 then (if 0 < x then Finite 0 else NegZero)
           else Finite (of_int n * q))"

text \<open>The sign bit, the value of a finite number, and the two tests on the kind.\<close>

fun isneg :: "jsnum \<Rightarrow> bool" where
  "isneg (Finite r) = (r < 0)"
| "isneg NegZero = True"
| "isneg NegInf = True"
| "isneg _ = False"

fun val :: "jsnum \<Rightarrow> rat" where
  "val (Finite r) = r"
| "val _ = 0"

fun is_inf :: "jsnum \<Rightarrow> bool" where
  "is_inf PosInf = True"
| "is_inf NegInf = True"
| "is_inf _ = False"

definition is_zero :: "jsnum \<Rightarrow> bool" where
  "is_zero a = (a = Finite 0 \<or> a = NegZero)"

definition signed_zero :: "bool \<Rightarrow> jsnum" where
  "signed_zero neg = (if neg then NegZero else Finite 0)"

definition signed_inf :: "bool \<Rightarrow> jsnum" where
  "signed_inf neg = (if neg then NegInf else PosInf)"

text \<open>
  \<^verbatim>\<open>a - b\<close>. Two infinities of the same sign give \<^verbatim>\<open>NaN\<close>; an exact difference of zero
  is \<^verbatim>\<open>+0\<close>, except \<^verbatim>\<open>-0 - +0 = -0\<close>.
\<close>

definition js_sub :: "jsnum \<Rightarrow> jsnum \<Rightarrow> jsnum" where
  "js_sub a b =
     (if a = NaN \<or> b = NaN then NaN
      else if is_inf a then (if is_inf b \<and> isneg a = isneg b then NaN else a)
      else if is_inf b then signed_inf (\<not> isneg b)
      else if val a - val b = 0
        then (if a = NegZero \<and> b = Finite 0 then NegZero else Finite 0)
      else round64 (val a - val b))"

text \<open>
  \<^verbatim>\<open>a * b\<close>. The sign of the result is the exclusive or of the two signs; an infinity
  times a zero is \<^verbatim>\<open>NaN\<close>.
\<close>

definition js_mul :: "jsnum \<Rightarrow> jsnum \<Rightarrow> jsnum" where
  "js_mul a b =
     (if a = NaN \<or> b = NaN then NaN
      else if is_inf a \<or> is_inf b
        then (if (\<not> is_inf a \<and> val a = 0) \<or> (\<not> is_inf b \<and> val b = 0) then NaN
              else signed_inf (isneg a \<noteq> isneg b))
      else if val a = 0 \<or> val b = 0 then signed_zero (isneg a \<noteq> isneg b)
      else round64 (val a * val b))"

text \<open>
  \<^verbatim>\<open>a / b\<close>. A zero divided by a zero and an infinity divided by an infinity are
  \<^verbatim>\<open>NaN\<close>; any other number divided by a zero is an infinity, with the exclusive or
  of the two signs.
\<close>

definition js_div :: "jsnum \<Rightarrow> jsnum \<Rightarrow> jsnum" where
  "js_div a b =
     (if a = NaN \<or> b = NaN then NaN
      else if is_inf a then (if is_inf b then NaN else signed_inf (isneg a \<noteq> isneg b))
      else if is_inf b then signed_zero (isneg a \<noteq> isneg b)
      else if val b = 0 then (if val a = 0 then NaN else signed_inf (isneg a \<noteq> isneg b))
      else if val a = 0 then signed_zero (isneg a \<noteq> isneg b)
      else round64 (val a / val b))"

text \<open>\<^verbatim>\<open>a <= b\<close>: false as soon as one side is \<^verbatim>\<open>NaN\<close>; the two zeros are equal.\<close>

definition js_le :: "jsnum \<Rightarrow> jsnum \<Rightarrow> bool" where
  "js_le a b =
     (if a = NaN \<or> b = NaN then False
      else if a = NegInf \<or> b = PosInf then True
      else if a = PosInf \<or> b = NegInf then False
      else val a \<le> val b)"

text \<open>\<^verbatim>\<open>a >= b\<close>.\<close>

definition js_ge :: "jsnum \<Rightarrow> jsnum \<Rightarrow> bool" where
  "js_ge a b = js_le b a"

text \<open>\<^verbatim>\<open>Number.isFinite\<close>.\<close>

fun js_isFinite :: "jsnum \<Rightarrow> bool" where
  "js_isFinite (Finite _) = True"
| "js_isFinite NegZero = True"
| "js_isFinite _ = False"

text \<open>
  A \<open>jsnum\<close> is a number of the format when its finite value is one that rounding
  leaves alone. Numbers that reach the component through JSON are of this kind.
\<close>

definition is_binary64 :: "jsnum \<Rightarrow> bool" where
  "is_binary64 a = (case a of Finite r \<Rightarrow> r = 0 \<or> round64 r = Finite r | _ \<Rightarrow> True)"

text \<open>An array read \<^verbatim>\<open>xs[i]\<close>: \<^verbatim>\<open>undefined\<close> (here \<open>None\<close>) out of range.\<close>

definition js_index :: "'a list \<Rightarrow> nat \<Rightarrow> 'a option" where
  "js_index xs i = (if i < length xs then Some (xs ! i) else None)"

section \<open>The chart component (StockChart)\<close>

subsection \<open>Data\<close>

text \<open>\<^verbatim>\<open>interface StockDataPoint { date: string; close: number | null }\<close>\<close>

record StockDataPoint =
  date :: string
  close :: "jsnum option"

text \<open>
  \<^verbatim>\<open>type ChartPoint = { x: number; y: number | null; originalY: number | null }\<close>.
  The fields \<^verbatim>\<open>x\<close> and \<^verbatim>\<open>y\<close> are named \<open>pt_x\<close> and \<open>pt_y\<close>.
\<close>

record ChartPoint =
  pt_x :: jsnum
  pt_y :: "jsnum option"
  pt_originalY :: "jsnum option"

text \<open>
  The colours of a dataset: a literal for the exchange-rate series, otherwise an
  \<^verbatim>\<open>hsl\<close>/\<^verbatim>\<open>hsla\<close> string built from the hue \<^verbatim>\<open>index * 137.508\<close>. The hue is kept as
  a number; its rendering into the string is not modelled.
\<close>

datatype Colour = Literal string | Hsl jsnum | Hsla jsnum

text \<open>One entry of \<^verbatim>\<open>datasets\<close>; the fields carry the prefix \<open>ds_\<close>.\<close>

record Dataset =
  ds_label :: "string option"
  ds_data :: "ChartPoint list"
  ds_borderColor :: Colour
  ds_backgroundColor :: Colour
  ds_borderDash :: "jsnum list"
  ds_pointRadius :: jsnum
  ds_borderWidth :: jsnum
  ds_fill :: bool
  ds_yAxisID :: string
  ds_tension :: jsnum

record ChartData =
  labels :: "string list"
  datasets :: "Dataset list"

subsection \<open>chartData\<close>

text \<open>
  \<^verbatim>\<open>new Date(s).getTime()\<close> belongs to the host, not to the repository: it is the
  parameter \<open>getTime\<close> of everything below (\<open>NaN\<close> for an invalid date).

  \<open>validData\<close> is the first \<^verbatim>\<open>filter\<close> of the dataset callback.
\<close>

definition validData ::
  "(string \<Rightarrow> jsnum) \<Rightarrow> jsnum \<Rightarrow> jsnum \<Rightarrow> StockDataPoint list \<Rightarrow> StockDataPoint list" where
  "validData getTime startTimestamp endTimestamp stockData =
     filter (\<lambda>point.
        let pointTimestamp = getTime (date point)
        in close point \<noteq> None \<and> js_ge pointTimestamp startTimestamp
             \<and> js_le pointTimestamp endTimestamp) stockData"

text \<open>
  \<^verbatim>\<open>isExchangeRate ? 1 : (firstValidPoint?.close ?? 0)\<close>, where
  \<^verbatim>\<open>firstValidPoint = validData[0]\<close> is \<^verbatim>\<open>undefined\<close> on an empty array.
\<close>

definition baseValue :: "bool \<Rightarrow> StockDataPoint list \<Rightarrow> jsnum" where
  "baseValue isExchangeRate vd =
     (if isExchangeRate then Finite 1
      else (case js_index vd 0 of
              None \<Rightarrow> Finite 0
            | Some firstValidPoint \<Rightarrow>
                (case close firstValidPoint of None \<Rightarrow> Finite 0 | Some c \<Rightarrow> c)))"

text \<open>The callback of \<^verbatim>\<open>validData.map\<close>.\<close>

definition toChartPoint ::
  "(string \<Rightarrow> jsnum) \<Rightarrow> bool \<Rightarrow> jsnum \<Rightarrow> StockDataPoint \<Rightarrow> ChartPoint" where
  "toChartPoint getTime isExchangeRate base point =
     \<lparr> pt_x = getTime (date point),
       pt_y = (case close point of
                 None \<Rightarrow> None
               | Some c \<Rightarrow>
                   Some (if isExchangeRate then c
                         else js_mul (js_div (js_sub c base) base) (Finite 100))),
       pt_originalY = close point \<rparr>"

text \<open>The callback of \<^verbatim>\<open>data.map((stockData, index) => ...)\<close>. The decimal literals
  \<^verbatim>\<open>137.508\<close> and \<^verbatim>\<open>0.3\<close> denote the binary64 numbers nearest to them.\<close>

definition dataset ::
  "(string \<Rightarrow> jsnum) \<Rightarrow> string list \<Rightarrow> jsnum \<Rightarrow> jsnum \<Rightarrow> nat \<Rightarrow> StockDataPoint list \<Rightarrow> Dataset" where
  "dataset getTime symbols startTimestamp endTimestamp index stockData =
     (let symbol = js_index symbols index;
          isExchangeRate = (symbol = Some ''USDJPY=X'');
          vd = validData getTime startTimestamp endTimestamp stockData;
          base = baseValue isExchangeRate vd;
          hue = js_mul (Finite (of_nat index)) (round64 (137508 / 1000))
      in \<lparr> ds_label = symbol,
           ds_data = filter (\<lambda>point. pt_y point \<noteq> None)
                       (map (toChartPoint getTime isExchangeRate base) vd),
           ds_borderColor =
             (if isExchangeRate then Literal ''rgba(128, 128, 128, 0.8)'' else Hsl hue),
           ds_backgroundColor =
             (if isExchangeRate then Literal ''rgba(128, 128, 128, 0.2)'' else Hsla hue),
           ds_borderDash = [],
           ds_pointRadius = Finite 0,
           ds_borderWidth = (if isExchangeRate then Finite (1 / 2) else Finite 1),
           ds_fill = False,
           ds_yAxisID = (if isExchangeRate then ''y-exchange'' else ''y-percent''),
           ds_tension = round64 (3 / 10) \<rparr>)"

text \<open>
  The body of the \<^verbatim>\<open>useMemo\<close> that computes \<^verbatim>\<open>chartData\<close>. The props are typed as
  arrays, so the \<^verbatim>\<open>!data\<close> and \<^verbatim>\<open>!symbols\<close> tests of the guard are never true and
  only the two length tests remain.
\<close>

definition chartData ::
  "(string \<Rightarrow> jsnum) \<Rightarrow> StockDataPoint list list \<Rightarrow> string list \<Rightarrow> string \<Rightarrow> string \<Rightarrow> ChartData" where
  "chartData getTime data symbols startDate endDate =
     (if length data = 0 \<or> length symbols = 0 then \<lparr> labels = [], datasets = [] \<rparr>
      else
        let startTimestamp = getTime startDate;
            endTimestamp = getTime endDate
        in \<lparr> labels = [],
             datasets = map (\<lambda>(index, stockData).
                               dataset getTime symbols startTimestamp endTimestamp index stockData)
                          (enumerate 0 data) \<rparr>)"

subsection \<open>options\<close>

text \<open>
  The \<^verbatim>\<open>useMemo\<close> that computes \<^verbatim>\<open>options\<close>. The records follow the nesting of
  the object literal. The formatting callbacks (tooltip label, tick labels, grid line
  width) and the date adapter's locale are functions handed to the chart library and
  are left out; the colours that depend on \<^verbatim>\<open>isDarkMode\<close> are kept.
\<close>

record PanOptions =
  pan_enabled :: bool
  pan_mode :: string

record ZoomGestures =
  wheel_enabled :: bool
  pinch_enabled :: bool
  zoom_mode :: string

text \<open>\<^verbatim>\<open>limits.x = { min, max, minRange }\<close>\<close>

record AxisLimits =
  lim_min :: jsnum
  lim_max :: jsnum
  lim_minRange :: jsnum

record ZoomPlugin =
  zoom_pan :: PanOptions
  zoom_zoom :: ZoomGestures
  zoom_limits_x :: AxisLimits

record TooltipOptions =
  tooltip_enabled :: bool
  tooltip_mode :: string
  tooltip_intersect :: bool
  tooltip_backgroundColor :: string
  tooltip_titleColor :: string
  tooltip_bodyColor :: string

record TimeScale =
  x_type :: string
  x_unit :: string
  x_titleText :: string
  x_color :: string
  x_gridColor :: string
  x_min :: jsnum
  x_max :: jsnum

record LinearScale =
  y_type :: string
  y_display :: bool
  y_position :: string
  y_titleText :: string
  y_color :: string
  y_gridDisplay :: bool

record Options =
  responsive :: bool
  maintainAspectRatio :: bool
  animation_duration :: jsnum
  legend_position :: string
  legend_color :: string
  title_text :: string
  title_color :: string
  tooltip :: TooltipOptions
  zoom :: ZoomPlugin
  scale_x :: TimeScale
  scale_y_percent :: LinearScale
  scale_y_exchange :: LinearScale

definition options ::
  "(string \<Rightarrow> jsnum) \<Rightarrow> bool \<Rightarrow> string \<Rightarrow> string \<Rightarrow> bool \<Rightarrow> Options" where
  "options getTime isDarkMode startDate endDate showTooltip =
     (let text_colour = (if isDarkMode then ''#fff'' else ''#666'');
          grid_colour = (if isDarkMode then ''rgba(255, 255, 255, 0.1)''
                         else ''rgba(0, 0, 0, 0.1)'')
      in \<lparr> responsive = True,
           maintainAspectRatio = False,
           animation_duration = Finite 0,
           legend_position = ''top'',
           legend_color = text_colour,
           title_text = ''Stock Price and Exchange Rate Comparison'',
           title_color = text_colour,
           tooltip =
             \<lparr> tooltip_enabled = showTooltip,
               tooltip_mode = ''index'',
               tooltip_intersect = False,
               tooltip_backgroundColor =
                 (if isDarkMode then ''rgba(0, 0, 0, 0.8)'' else ''rgba(255, 255, 255, 0.8)''),
               tooltip_titleColor = text_colour,
               tooltip_bodyColor = text_colour \<rparr>,
           zoom =
             \<lparr> zoom_pan = \<lparr> pan_enabled = True, pan_mode = ''x'' \<rparr>,
               zoom_zoom = \<lparr> wheel_enabled = True, pinch_enabled = True, zoom_mode = ''x'' \<rparr>,
               zoom_limits_x =
                 \<lparr> lim_min = getTime startDate,
                   lim_max = getTime endDate,
                   lim_minRange = Finite 86400000 \<rparr> \<rparr>,
           scale_x =
             \<lparr> x_type = ''time'',
               x_unit = ''day'',
               x_titleText = ''Date'',
               x_color = text_colour,
               x_gridColor = grid_colour,
               x_min = getTime startDate,
               x_max = getTime endDate \<rparr>,
           scale_y_percent =
             \<lparr> y_type = ''linear'',
               y_display = True,
               y_position = ''right'',
               y_titleText = ''Percent Change'',
               y_color = text_colour,
               y_gridDisplay = True \<rparr>,
           scale_y_exchange =
             \<lparr> y_type = ''linear'',
               y_display = True,
               y_position = ''left'',
               y_titleText = ''USD/JPY Exchange Rate'',
               y_color = text_colour,
               y_gridDisplay = False \<rparr> \<rparr>)"

subsection \<open>What the component returns\<close>

text \<open>
  The value returned by one render of \<^verbatim>\<open>StockChart\<close>: the \<^verbatim>\<open>div\<close> holding the message,
  or the \<^verbatim>\<open>Chart\<close> element with its \<^verbatim>\<open>data\<close> and \<^verbatim>\<open>options\<close> props. The height and
  background of the wrapping \<^verbatim>\<open>div\<close> are left out.
\<close>

datatype Element = MessageDiv string | ChartElement ChartData Options

definition StockChart ::
  "(string \<Rightarrow> jsnum) \<Rightarrow> bool \<Rightarrow> StockDataPoint list list \<Rightarrow> string list \<Rightarrow> string \<Rightarrow> string
     \<Rightarrow> bool \<Rightarrow> Element" where
  "StockChart getTime isDarkMode data symbols startDate endDate showTooltip =
     (if length data = 0 \<or> length symbols = 0
      then MessageDiv ''No data available to display''
      else ChartElement (chartData getTime data symbols startDate endDate)
             (options getTime isDarkMode startDate endDate showTooltip))"

section \<open>The fetcher (fetchStockData)\<close>

text \<open>
  \<^verbatim>\<open>fetchSingleStockData\<close> wraps its whole body in \<^verbatim>\<open>try\<close> and returns \<^verbatim>\<open>[]\<close> from the
  \<^verbatim>\<open>catch\<close>. The body (the HTTP request and the conversion of the response into
  points, for the two period bounds computed by the caller) is the parameter
  \<open>request\<close>: \<open>Inl\<close> when anything in it throws, \<open>Inr\<close> the points otherwise.
\<close>

datatype fetch_error = RequestFailed

definition fetchSingleStockData ::
  "(string \<Rightarrow> fetch_error + StockDataPoint list) \<Rightarrow> string \<Rightarrow> StockDataPoint list" where
  "fetchSingleStockData request symbol =
     (case request symbol of Inl _ \<Rightarrow> [] | Inr points \<Rightarrow> points)"

text \<open>\<^verbatim>\<open>Set.prototype.add\<close> on a set kept in insertion order.\<close>

definition set_add :: "string list \<Rightarrow> string \<Rightarrow> string list" where
  "set_add s d = (if d \<in> set s then s else s @ [d])"

text \<open>\<^verbatim>\<open>results.forEach(data => data.forEach(point => allDates.add(point.date)))\<close>\<close>

definition allDates :: "StockDataPoint list list \<Rightarrow> string list" where
  "allDates results =
     fold (\<lambda>data s. fold (\<lambda>point s'. set_add s' (date point)) data s) results []"

text \<open>
  \<^verbatim>\<open>Array.from(allDates).sort()\<close>: the default sort compares strings by code unit,
  which on \<open>string\<close> is the lexicographic order of the character codes.
\<close>

definition sortedDates :: "StockDataPoint list list \<Rightarrow> string list" where
  "sortedDates results = sort (allDates results)"

text \<open>\<^verbatim>\<open>new Map(data.map(point => [point.date, point.close]))\<close>: a later entry for a
  key replaces an earlier one.\<close>

definition dataMap :: "StockDataPoint list \<Rightarrow> (string \<rightharpoonup> jsnum option)" where
  "dataMap data = fold (\<lambda>point m. m(date point \<mapsto> close point)) data Map.empty"

text \<open>
  \<^verbatim>\<open>fetchStockData\<close>. Its arguments \<^verbatim>\<open>startDate\<close> and \<^verbatim>\<open>endDate\<close> and the clock only
  determine the two period bounds handed to every request, so they are part of
  \<open>request\<close>. Every promise of \<^verbatim>\<open>fetchSingleStockData\<close> resolves (it has caught its own
  errors) and nothing else in the \<^verbatim>\<open>try\<close> block throws, so the \<^verbatim>\<open>catch\<close> that returns
  \<^verbatim>\<open>[]\<close> is never entered and has no branch here.
\<close>

definition fetchStockData ::
  "(string \<Rightarrow> fetch_error + StockDataPoint list) \<Rightarrow> string list \<Rightarrow> StockDataPoint list list" where
  "fetchStockData request symbols =
     (let results = map (fetchSingleStockData request) symbols;
          sorted_dates = sortedDates results
      in map (\<lambda>data.
                let m = dataMap data
                in map (\<lambda>d. \<lparr> date = d,
                               close = (case m d of None \<Rightarrow> None | Some c \<Rightarrow> c) \<rparr>)
                     sorted_dates)
           results)"

section \<open>Inputs for the examples\<close>

text \<open>
  \<^verbatim>\<open>new Date(s).getTime()\<close> on the calendar days used in the examples: a date-only ISO
  string is midnight UTC, in milliseconds since 1970-01-01 (2024-01-01 is day 19723).
  Any other string stands for one that does not parse (\<^verbatim>\<open>Invalid Date\<close>, time \<^verbatim>\<open>NaN\<close>).
\<close>

definition exampleTime :: "string \<Rightarrow> jsnum" where
  "exampleTime s =
     (if s = ''2023-12-31'' then Finite (19722 * 86400000)
      else if s = ''2024-01-01'' then Finite (19723 * 86400000)
      else if s = ''2024-01-02'' then Finite (19724 * 86400000)
      else if s = ''2024-01-03'' then Finite (19725 * 86400000)
      else if s = ''2024-01-04'' then Finite (19726 * 86400000)
      else NaN)"

definition pt :: "string \<Rightarrow> jsnum option \<Rightarrow> StockDataPoint" where
  "pt d c = \<lparr> date = d, close = c \<rparr>"

text \<open>
  The series of the examples: \<open>abcSeries\<close> has one point before and one after the
  window 2024-01-01 to 2024-01-03, \<open>gapSeries\<close> has no price on the second day,
  \<open>zeroSeries\<close> starts at price zero, \<open>tinySeries\<close> starts at the price
  \<open>3 / 32768 = 0.000091552734375\<close>, \<open>oldSeries\<close> lies wholly before the window.
\<close>

definition abcSeries :: "StockDataPoint list" where
  "abcSeries =
     [pt ''2023-12-31'' (Some (Finite 90)), pt ''2024-01-01'' (Some (Finite 100)),
      pt ''2024-01-02'' (Some (Finite 110)), pt ''2024-01-03'' (Some (Finite 121)),
      pt ''2024-01-04'' (Some (Finite 130))]"

definition usdSeries :: "StockDataPoint list" where
  "usdSeries =
     [pt ''2024-01-01'' (Some (Finite 150)), pt ''2024-01-02'' (Some (Finite 151)),
      pt ''2024-01-03'' (Some (Finite 149))]"

definition gapSeries :: "StockDataPoint list" where
  "gapSeries =
     [pt ''2024-01-01'' (Some (Finite 100)), pt ''2024-01-02'' None,
      pt ''2024-01-03'' (Some (Finite 121))]"

definition zeroSeries :: "StockDataPoint list" where
  "zeroSeries = [pt ''2024-01-01'' (Some (Finite 0)), pt ''2024-01-02'' (Some (Finite 5))]"

definition tinySeries :: "StockDataPoint list" where
  "tinySeries =
     [pt ''2024-01-01'' (Some (Finite (3 / 32768))), pt ''2024-01-02'' (Some (Finite 1000))]"

definition oldSeries :: "StockDataPoint list" where
  "oldSeries = [pt ''2023-12-31'' (Some (Finite 5))]"

text \<open>
  A request function for the fetcher's example: \<^verbatim>\<open>A\<close> answers with two days out of
  order, one of them without a price, the request for \<^verbatim>\<open>B\<close> fails, \<^verbatim>\<open>C\<close> answers with
  a third day.
\<close>

definition exampleRequest :: "string \<Rightarrow> fetch_error + StockDataPoint list" where
  "exampleRequest s =
     (if s = ''A'' then Inr [pt ''2024-01-02'' (Some (Finite 1)), pt ''2024-01-01'' None]
      else if s = ''B'' then Inl RequestFailed
      else Inr [pt ''2024-01-03'' (Some (Finite 7))])"

section \<open>Properties of chartData\<close>

subsection \<open>Auxiliary facts\<close>

lemma validData_set:
  "r \<in> set (validData g st en sd) \<longleftrightarrow>
     r \<in> set sd \<and> close r \<noteq> None \<and> js_ge (g (date r)) st \<and> js_le (g (date r)) en"
  by (auto simp: validData_def Let_def)

lemma toChartPoint_sel:
  "pt_x (toChartPoint g ex b r) = g (date r)"
  "pt_originalY (toChartPoint g ex b r) = close r"
  by (simp_all add: toChartPoint_def)

text \<open>The second \<^verbatim>\<open>filter\<close> (on \<^verbatim>\<open>y !== null\<close>) removes nothing: the first one has
  already removed the points without a price.\<close>

lemma ds_data_dataset:
  "ds_data (dataset g symbols st en i sd) =
     map (toChartPoint g (js_index symbols i = Some ''USDJPY=X'')
            (baseValue (js_index symbols i = Some ''USDJPY=X'') (validData g st en sd)))
       (validData g st en sd)"
proof -
  have "\<forall>r \<in> set (validData g st en sd). close r \<noteq> None"
    by (simp add: validData_set)
  then have "filter (\<lambda>p. pt_y p \<noteq> None)
      (map (toChartPoint g ex b) (validData g st en sd)) =
      map (toChartPoint g ex b) (validData g st en sd)" for ex b
    by (auto simp: filter_id_conv toChartPoint_def split: option.splits)
  then show ?thesis
    by (simp add: dataset_def Let_def)
qed

lemma ds_label_dataset: "ds_label (dataset g symbols st en i sd) = js_index symbols i"
  by (simp add: dataset_def Let_def)

lemma ds_yAxisID_dataset:
  "ds_yAxisID (dataset g symbols st en i sd) =
     (if js_index symbols i = Some ''USDJPY=X'' then ''y-exchange'' else ''y-percent'')"
  by (simp add: dataset_def Let_def)

lemma datasets_guard:
  "data = [] \<or> symbols = [] \<Longrightarrow> datasets (chartData g data symbols s e) = []"
  by (auto simp: chartData_def)

lemma datasets_chartData:
  "data \<noteq> [] \<Longrightarrow> symbols \<noteq> [] \<Longrightarrow>
   datasets (chartData g data symbols s e) =
     map (\<lambda>(i, sd). dataset g symbols (g s) (g e) i sd) (enumerate 0 data)"
  by (simp add: chartData_def Let_def)

lemma length_datasets:
  "length (datasets (chartData g data symbols s e)) =
     (if data = [] \<or> symbols = [] then 0 else length data)"
  by (auto simp: datasets_guard datasets_chartData)

lemma nth_datasets:
  assumes "symbols \<noteq> []" and "i < length data"
  shows "datasets (chartData g data symbols s e) ! i = dataset g symbols (g s) (g e) i (data ! i)"
proof -
  from assms have ne: "data \<noteq> []" by auto
  show ?thesis
    using assms(2) by (simp add: datasets_chartData [OF ne assms(1)] nth_enumerate_eq)
qed

lemma in_datasetsD:
  assumes "ds \<in> set (datasets (chartData g data symbols s e))"
  shows "\<exists>i. symbols \<noteq> [] \<and> i < length data \<and> ds = dataset g symbols (g s) (g e) i (data ! i)"
proof -
  from assms obtain i where i: "i < length (datasets (chartData g data symbols s e))"
    and ds: "ds = datasets (chartData g data symbols s e) ! i"
    by (auto simp: in_set_conv_nth)
  from i have "symbols \<noteq> []" "i < length data"
    by (auto simp: length_datasets split: if_splits)
  with ds nth_datasets show ?thesis by metis
qed

lemma baseValue_Cons: "close v = Some c \<Longrightarrow> baseValue False (v # vs) = c"
  by (simp add: baseValue_def js_index_def)

lemma js_le_NaN: "\<not> js_le a NaN" "\<not> js_le NaN a"
  by (simp_all add: js_le_def)

lemma validData_NaN:
  "st = NaN \<or> en = NaN \<Longrightarrow> validData g st en sd = []"
  by (auto simp: validData_def js_ge_def Let_def filter_empty_conv js_le_NaN)

text \<open>The dataset of a series that is not the exchange rate, with the first in-window
  price \<open>b\<close>: every in-window point with a price, transformed against \<open>b\<close>.\<close>

lemma percent_dataset:
  assumes "symbols \<noteq> []" and "i < length data"
    and "js_index symbols i \<noteq> Some ''USDJPY=X''"
    and "validData g (g s) (g e) (data ! i) = v # vs"
    and "close v = Some b"
  shows "ds_data (datasets (chartData g data symbols s e) ! i) =
           map (toChartPoint g False b) (v # vs)"
  using assms(3-5) by (simp add: nth_datasets [OF assms(1,2)] ds_data_dataset baseValue_Cons)

lemma percent_point:
  assumes "symbols \<noteq> []" and "i < length data"
    and "js_index symbols i \<noteq> Some ''USDJPY=X''"
    and "validData g (g s) (g e) (data ! i) = v # vs"
    and "close v = Some b"
    and "j < length (v # vs)" and "close ((v # vs) ! j) = Some c"
  shows "pt_y (ds_data (datasets (chartData g data symbols s e) ! i) ! j) =
           Some (js_mul (js_div (js_sub c b) b) (Finite 100))"
    and "pt_x (ds_data (datasets (chartData g data symbols s e) ! i) ! j) =
           g (date ((v # vs) ! j))"
proof -
  have "ds_data (datasets (chartData g data symbols s e) ! i) ! j =
          toChartPoint g False b ((v # vs) ! j)"
    unfolding percent_dataset [OF assms(1-5)] using assms(6) by (rule nth_map)
  then show "pt_y (ds_data (datasets (chartData g data symbols s e) ! i) ! j) =
           Some (js_mul (js_div (js_sub c b) b) (Finite 100))"
    and "pt_x (ds_data (datasets (chartData g data symbols s e) ! i) ! j) =
           g (date ((v # vs) ! j))"
    using assms(7) by (simp_all add: toChartPoint_def)
qed

text \<open>The percent formula against a zero: \<^verbatim>\<open>NaN\<close> for a zero or \<^verbatim>\<open>NaN\<close> price, an
  infinity for every other one.\<close>

lemma is_zero_cases: "is_zero z \<Longrightarrow> (z = Finite 0 \<Longrightarrow> P) \<Longrightarrow> (z = NegZero \<Longrightarrow> P) \<Longrightarrow> P"
  by (auto simp: is_zero_def)

lemma js_sub_nonzero_zero:
  assumes "is_zero z" and "r \<noteq> 0" and "round64 r = Finite r"
  shows "js_sub (Finite r) z = Finite r"
  using assms(1)
proof (rule is_zero_cases)
  assume "z = Finite 0"
  with assms(2,3) show ?thesis by (simp add: js_sub_def)
next
  assume "z = NegZero"
  with assms(2,3) show ?thesis by (simp add: js_sub_def)
qed

lemma js_sub_zero_zero:
  assumes "is_zero z" and "is_zero c"
  shows "is_zero (js_sub c z)"
  using assms(1)
proof (rule is_zero_cases)
  assume z: "z = Finite 0"
  from assms(2) show ?thesis
    by (rule is_zero_cases) (simp_all add: z js_sub_def is_zero_def)
next
  assume z: "z = NegZero"
  from assms(2) show ?thesis
    by (rule is_zero_cases) (simp_all add: z js_sub_def is_zero_def)
qed

lemma js_sub_inf_zero:
  assumes "is_zero z" and "is_inf c"
  shows "js_sub c z = c"
  using assms(1)
proof (rule is_zero_cases)
  assume "z = Finite 0"
  with assms(2) show ?thesis by (cases c) (simp_all add: js_sub_def)
next
  assume "z = NegZero"
  with assms(2) show ?thesis by (cases c) (simp_all add: js_sub_def)
qed

lemma js_div_zero_zero:
  assumes "is_zero z" and "is_zero a"
  shows "js_div a z = NaN"
  using assms(1)
proof (rule is_zero_cases)
  assume z: "z = Finite 0"
  from assms(2) show ?thesis
    by (rule is_zero_cases) (simp_all add: z js_div_def)
next
  assume z: "z = NegZero"
  from assms(2) show ?thesis
    by (rule is_zero_cases) (simp_all add: z js_div_def)
qed

lemma js_div_nonzero_zero:
  assumes "is_zero z" and "r \<noteq> 0"
  shows "js_div (Finite r) z = signed_inf (isneg (Finite r) \<noteq> isneg z)"
  using assms(1)
proof (rule is_zero_cases)
  assume "z = Finite 0"
  with assms(2) show ?thesis by (simp add: js_div_def)
next
  assume "z = NegZero"
  with assms(2) show ?thesis by (simp add: js_div_def)
qed

lemma js_div_inf_zero:
  assumes "is_zero z" and "is_inf c"
  shows "js_div c z = signed_inf (isneg c \<noteq> isneg z)"
  using assms(1)
proof (rule is_zero_cases)
  assume "z = Finite 0"
  with assms(2) show ?thesis by (cases c) (simp_all add: js_div_def)
next
  assume "z = NegZero"
  with assms(2) show ?thesis by (cases c) (simp_all add: js_div_def)
qed

lemma js_mul_inf_100: "js_mul (signed_inf s) (Finite 100) = signed_inf s"
  by (simp add: js_mul_def signed_inf_def)

lemma js_mul_NaN: "js_mul NaN b = NaN"
  by (simp add: js_mul_def)

lemma zero_base_value:
  assumes z: "is_zero z" and "is_binary64 c"
  shows "js_mul (js_div (js_sub c z) z) (Finite 100) =
           (if c = NaN \<or> is_zero c then NaN else signed_inf (isneg c \<noteq> isneg z))"
proof (cases c)
  case (Finite r)
  show ?thesis
  proof (cases "r = 0")
    case True
    with Finite have c0: "is_zero c" by (simp add: is_zero_def)
    from js_div_zero_zero [OF z js_sub_zero_zero [OF z c0]] c0 show ?thesis
      by (simp add: js_mul_NaN)
  next
    case False
    with Finite assms(2) have "round64 r = Finite r"
      by (simp add: is_binary64_def)
    from js_sub_nonzero_zero [OF z False this] js_div_nonzero_zero [OF z False] Finite False
    show ?thesis
      by (simp add: js_mul_inf_100 is_zero_def)
  qed
next
  case NegZero
  then have c0: "is_zero c" by (simp add: is_zero_def)
  from js_div_zero_zero [OF z js_sub_zero_zero [OF z c0]] c0 show ?thesis
    by (simp add: js_mul_NaN)
next
  case PosInf
  then have "is_inf c" by simp
  from js_sub_inf_zero [OF z this] js_div_inf_zero [OF z this] PosInf show ?thesis
    by (simp add: js_mul_inf_100 is_zero_def)
next
  case NegInf
  then have "is_inf c" by simp
  from js_sub_inf_zero [OF z this] js_div_inf_zero [OF z this] NegInf show ?thesis
    by (simp add: js_mul_inf_100 is_zero_def)
next
  case NaN
  then show ?thesis by (simp add: js_sub_def js_div_def js_mul_def)
qed

subsection \<open>The percent transform\<close>

text \<open>
  C1 as written does not hold: the three operations of the formula are binary64
  operations, each of which rounds, and nothing bounds the absolute error by 1e-9.
  With the first in-window price \<open>3 / 32768\<close> and a later price 1000 (both numbers of
  the format), the plotted value is 1092266566.6666665, which is more than 1e-7 away
  from \<open>(p - b) / b * 100 = 3276799700 / 3\<close>.
\<close>

theorem percent_tolerance_counterexample:
  "map (map pt_y \<circ> ds_data)
     (datasets (chartData exampleTime [tinySeries] [''ABC''] ''2024-01-01'' ''2024-01-03''))
   = [[Some (Finite 0), Some (Finite (2290649014818133 / 2097152))]]
   \<and> 1 / 10 ^ 7 < \<bar>2290649014818133 / 2097152 - (1000 - 3 / 32768) / (3 / 32768) * (100::rat)\<bar>"
proof -
  have "map (map pt_y \<circ> ds_data)
     (datasets (chartData exampleTime [tinySeries] [''ABC''] ''2024-01-01'' ''2024-01-03''))
   = [[Some (Finite 0), Some (Finite (2290649014818133 / 2097152))]]"
    by code_simp
  moreover
  have "1 / 10 ^ 7 < \<bar>2290649014818133 / 2097152 - (1000 - 3 / 32768) / (3 / 32768) * (100::rat)\<bar>"
    by simp
  ultimately show ?thesis by blast
qed

text \<open>
  C1, amended. Take a series that is not the exchange-rate series and whose first
  in-window point with a price has the finite, non-zero price \<open>b\<close>. The points of its
  dataset are, one for one and in order, the in-window points with a price; and where
  such a point has the finite price \<open>p\<close>, the plotted value of its point is the
  result of the three binary64 operations \<^verbatim>\<open>((p - b) / b) * 100\<close>, in this order, each
  rounded to nearest. (With an empty symbol list no dataset is built at all, hence
  the first hypothesis.)
\<close>

theorem percent_change_from_baseline:
  assumes ne: "symbols \<noteq> []" and i: "i < length data"
    and nex: "js_index symbols i \<noteq> Some ''USDJPY=X''"
    and vd: "validData getTime (getTime startDate) (getTime endDate) (data ! i) = v # vs"
    and b: "close v = Some (Finite b)" "b \<noteq> 0"
    and j: "j < length (v # vs)"
    and p: "close ((v # vs) ! j) = Some (Finite p)"
  shows "length (ds_data (datasets (chartData getTime data symbols startDate endDate) ! i))
           = length (v # vs)
       \<and> pt_x (ds_data (datasets (chartData getTime data symbols startDate endDate) ! i) ! j)
           = getTime (date ((v # vs) ! j))
       \<and> pt_y (ds_data (datasets (chartData getTime data symbols startDate endDate) ! i) ! j)
           = Some (js_mul (js_div (js_sub (Finite p) (Finite b)) (Finite b)) (Finite 100))"
proof -
  have "length (ds_data (datasets (chartData getTime data symbols startDate endDate) ! i))
           = length (v # vs)"
    by (simp add: percent_dataset [OF ne i nex vd b(1)])
  with percent_point [OF ne i nex vd b(1) j p] show ?thesis by blast
qed

text \<open>
  Witness for the amended C1: the spec's scenario, \<^verbatim>\<open>ABC\<close> at 100, 110, 121 inside the
  window (and a point on either side of it); the third in-window point is plotted at
  21, the three operations being exact here.
\<close>

theorem percent_change_from_baseline_witness:
  "pt_y (ds_data (datasets (chartData exampleTime [abcSeries, usdSeries]
           [''ABC'', ''USDJPY=X''] ''2024-01-01'' ''2024-01-03'') ! 0) ! 2) = Some (Finite 21)"
proof -
  let ?v = "pt ''2024-01-01'' (Some (Finite 100))"
  let ?vs = "[pt ''2024-01-02'' (Some (Finite 110)), pt ''2024-01-03'' (Some (Finite 121))]"
  have h1: "[''ABC'', ''USDJPY=X''] \<noteq> []" by simp
  have h2: "0 < length [abcSeries, usdSeries]" by simp
  have h3: "js_index [''ABC'', ''USDJPY=X''] 0 \<noteq> Some ''USDJPY=X''" by code_simp
  have h4: "validData exampleTime (exampleTime ''2024-01-01'') (exampleTime ''2024-01-03'')
              ([abcSeries, usdSeries] ! 0) = ?v # ?vs"
    by code_simp
  have h5: "close ?v = Some (Finite 100)" by code_simp
  have h6: "(100::rat) \<noteq> 0" by simp
  have h7: "2 < length (?v # ?vs)" by simp
  have h8: "close ((?v # ?vs) ! 2) = Some (Finite 121)" by code_simp
  have a: "js_mul (js_div (js_sub (Finite 121) (Finite 100)) (Finite 100)) (Finite 100)
             = Finite 21"
    by code_simp
  from percent_change_from_baseline [OF h1 h2 h3 h4 h5 h6 h7 h8] a
  show ?thesis by simp
qed

subsection \<open>A zero or missing baseline\<close>

text \<open>
  C2 as written does not hold: nothing tests the baseline before the division, so a
  first in-window price of zero gives \<^verbatim>\<open>0 / 0 = NaN\<close> for the first point and
  \<^verbatim>\<open>5 / 0 = Infinity\<close> for a later price of 5, and both points stay in the dataset
  (\<^verbatim>\<open>NaN !== null\<close>).
\<close>

theorem zero_baseline_counterexample:
  "map (map pt_y \<circ> ds_data)
     (datasets (chartData exampleTime [zeroSeries] [''ABC''] ''2024-01-01'' ''2024-01-03''))
   = [[Some NaN, Some PosInf]]"
  by code_simp

text \<open>
  C2, amended. For a series that is not the exchange-rate series: if no point is in
  the window with a price, the dataset has no point at all. If the first in-window
  price is a zero, every in-window point with a price is kept, and its plotted value
  is \<^verbatim>\<open>NaN\<close> when its own price is a zero (or \<^verbatim>\<open>NaN\<close>) and an infinity for every other
  price: \<^verbatim>\<open>+Infinity\<close> when the price and the zero have the same sign, \<^verbatim>\<open>-Infinity\<close>
  when they have not. (The prices are numbers of the binary64 format.)
\<close>

theorem undefined_baseline:
  assumes ne: "symbols \<noteq> []" and i: "i < length data"
    and nex: "js_index symbols i \<noteq> Some ''USDJPY=X''"
  shows "(validData getTime (getTime startDate) (getTime endDate) (data ! i) = [] \<longrightarrow>
            ds_data (datasets (chartData getTime data symbols startDate endDate) ! i) = [])
       \<and> (\<forall>v vs z. validData getTime (getTime startDate) (getTime endDate) (data ! i) = v # vs
             \<and> close v = Some z \<and> is_zero z \<longrightarrow>
            length (ds_data (datasets (chartData getTime data symbols startDate endDate) ! i))
              = length (v # vs)
          \<and> (\<forall>j < length (v # vs). \<forall>c.
                close ((v # vs) ! j) = Some c \<and> is_binary64 c \<longrightarrow>
                pt_y (ds_data (datasets (chartData getTime data symbols startDate endDate) ! i) ! j)
                  = Some (if c = NaN \<or> is_zero c then NaN
                          else signed_inf (isneg c \<noteq> isneg z))))"
proof (intro conjI impI allI)
  assume "validData getTime (getTime startDate) (getTime endDate) (data ! i) = []"
  then show "ds_data (datasets (chartData getTime data symbols startDate endDate) ! i) = []"
    by (simp add: nth_datasets [OF ne i] ds_data_dataset)
next
  fix v vs z
  assume "validData getTime (getTime startDate) (getTime endDate) (data ! i) = v # vs
             \<and> close v = Some z \<and> is_zero z"
  then show "length (ds_data (datasets (chartData getTime data symbols startDate endDate) ! i))
              = length (v # vs)"
    by (simp add: percent_dataset [OF ne i nex])
next
  fix v vs z j c
  assume a: "validData getTime (getTime startDate) (getTime endDate) (data ! i) = v # vs
             \<and> close v = Some z \<and> is_zero z"
    and j: "j < length (v # vs)"
    and c: "close ((v # vs) ! j) = Some c \<and> is_binary64 c"
  from a have vd: "validData getTime (getTime startDate) (getTime endDate) (data ! i) = v # vs"
    and cv: "close v = Some z" and z: "is_zero z"
    by blast+
  from c have cj: "close ((v # vs) ! j) = Some c" and cb: "is_binary64 c"
    by blast+
  have "js_mul (js_div (js_sub c z) z) (Finite 100) =
           (if c = NaN \<or> is_zero c then NaN else signed_inf (isneg c \<noteq> isneg z))"
    using z cb by (rule zero_base_value)
  moreover
  have "pt_y (ds_data (datasets (chartData getTime data symbols startDate endDate) ! i) ! j)
          = Some (js_mul (js_div (js_sub c z) z) (Finite 100))"
    using ne i nex vd cv j cj by (rule percent_point)
  ultimately
  show "pt_y (ds_data (datasets (chartData getTime data symbols startDate endDate) ! i) ! j)
          = Some (if c = NaN \<or> is_zero c then NaN else signed_inf (isneg c \<noteq> isneg z))"
    by simp
qed

text \<open>
  Witness for the amended C2: a series wholly before the window gives an empty
  dataset; the series starting at zero keeps its two points, the first plotted at
  \<^verbatim>\<open>NaN\<close>, the second (price 5) at \<^verbatim>\<open>+Infinity\<close>.
\<close>

theorem undefined_baseline_witness:
  "ds_data (datasets (chartData exampleTime [oldSeries] [''ABC'']
      ''2024-01-01'' ''2024-01-03'') ! 0) = []
   \<and> length (ds_data (datasets (chartData exampleTime [zeroSeries] [''ABC'']
      ''2024-01-01'' ''2024-01-03'') ! 0)) = 2
   \<and> pt_y (ds_data (datasets (chartData exampleTime [zeroSeries] [''ABC'']
      ''2024-01-01'' ''2024-01-03'') ! 0) ! 0) = Some NaN
   \<and> pt_y (ds_data (datasets (chartData exampleTime [zeroSeries] [''ABC'']
      ''2024-01-01'' ''2024-01-03'') ! 0) ! 1) = Some PosInf"
proof -
  let ?v = "pt ''2024-01-01'' (Some (Finite 0))"
  let ?vs = "[pt ''2024-01-02'' (Some (Finite 5))]"
  let ?D = "ds_data (datasets (chartData exampleTime [zeroSeries] [''ABC'']
      ''2024-01-01'' ''2024-01-03'') ! 0)"
  have h1: "[''ABC''] \<noteq> []" by simp
  have h2: "0 < length [oldSeries]" and h2': "0 < length [zeroSeries]" by simp_all
  have h3: "js_index [''ABC''] 0 \<noteq> Some ''USDJPY=X''" by code_simp
  have e: "validData exampleTime (exampleTime ''2024-01-01'') (exampleTime ''2024-01-03'')
             ([oldSeries] ! 0) = []"
    by code_simp
  have z: "validData exampleTime (exampleTime ''2024-01-01'') (exampleTime ''2024-01-03'')
             ([zeroSeries] ! 0) = ?v # ?vs \<and> close ?v = Some (Finite 0) \<and> is_zero (Finite 0)"
    by code_simp
  have j0: "0 < length (?v # ?vs)" and j1: "1 < length (?v # ?vs)" by simp_all
  have c0: "close ((?v # ?vs) ! 0) = Some (Finite 0) \<and> is_binary64 (Finite 0)"
    by code_simp
  have c1: "close ((?v # ?vs) ! 1) = Some (Finite 5) \<and> is_binary64 (Finite 5)"
    by code_simp
  have s0: "(if Finite 0 = NaN \<or> is_zero (Finite 0) then NaN
             else signed_inf (isneg (Finite 0) \<noteq> isneg (Finite 0))) = NaN"
    by code_simp
  have s1: "(if Finite 5 = NaN \<or> is_zero (Finite 5) then NaN
             else signed_inf (isneg (Finite 5) \<noteq> isneg (Finite 0))) = PosInf"
    by code_simp
  from undefined_baseline [OF h1 h2 h3, of exampleTime "''2024-01-01''" "''2024-01-03''"] e
  have "ds_data (datasets (chartData exampleTime [oldSeries] [''ABC'']
      ''2024-01-01'' ''2024-01-03'') ! 0) = []"
    by blast
  moreover
  note t = undefined_baseline [OF h1 h2' h3, of exampleTime "''2024-01-01''" "''2024-01-03''"]
  from t z have "length ?D = length (?v # ?vs)"
    by blast
  then have "length ?D = 2" by simp
  moreover
  from t z j0 c0 have "pt_y (?D ! 0) = Some (if Finite 0 = NaN \<or> is_zero (Finite 0) then NaN
             else signed_inf (isneg (Finite 0) \<noteq> isneg (Finite 0)))"
    by blast
  with s0 have "pt_y (?D ! 0) = Some NaN" by simp
  moreover
  from t z j1 c1 have "pt_y (?D ! 1) = Some (if Finite 5 = NaN \<or> is_zero (Finite 5) then NaN
             else signed_inf (isneg (Finite 5) \<noteq> isneg (Finite 0)))"
    by blast
  with s1 have "pt_y (?D ! 1) = Some PosInf" by simp
  ultimately show ?thesis by blast
qed

subsection \<open>The exchange-rate series\<close>

text \<open>
  C3. For the series whose symbol is \<^verbatim>\<open>USDJPY=X\<close>, the points of the dataset are the
  in-window points with a price, each plotted at its raw price (the plotted value and
  the retained original are the same, whatever the first price is), and the dataset
  is bound to the axis \<^verbatim>\<open>y-exchange\<close>; every other dataset is bound to \<^verbatim>\<open>y-percent\<close>,
  a different axis.
\<close>

theorem passthrough_series:
  assumes ne: "symbols \<noteq> []" and i: "i < length data"
    and ex: "js_index symbols i = Some ''USDJPY=X''"
  shows "ds_data (datasets (chartData getTime data symbols startDate endDate) ! i) =
           map (\<lambda>r. \<lparr> pt_x = getTime (date r), pt_y = close r, pt_originalY = close r \<rparr>)
             (validData getTime (getTime startDate) (getTime endDate) (data ! i))
       \<and> ds_yAxisID (datasets (chartData getTime data symbols startDate endDate) ! i)
           = ''y-exchange''
       \<and> (\<forall>k < length data.
             js_index symbols k \<noteq> Some ''USDJPY=X'' \<longrightarrow>
             ds_yAxisID (datasets (chartData getTime data symbols startDate endDate) ! k)
               = ''y-percent'')
       \<and> ''y-exchange'' \<noteq> ''y-percent''"
proof -
  have "toChartPoint getTime True b r =
          \<lparr> pt_x = getTime (date r), pt_y = close r, pt_originalY = close r \<rparr>" for b r
    by (simp add: toChartPoint_def split: option.splits)
  then have "ds_data (datasets (chartData getTime data symbols startDate endDate) ! i) =
           map (\<lambda>r. \<lparr> pt_x = getTime (date r), pt_y = close r, pt_originalY = close r \<rparr>)
             (validData getTime (getTime startDate) (getTime endDate) (data ! i))"
    using ex by (simp add: nth_datasets [OF ne i] ds_data_dataset)
  moreover
  have "ds_yAxisID (datasets (chartData getTime data symbols startDate endDate) ! i)
          = ''y-exchange''"
    using ex by (simp add: nth_datasets [OF ne i] ds_yAxisID_dataset)
  moreover
  have "\<forall>k < length data.
             js_index symbols k \<noteq> Some ''USDJPY=X'' \<longrightarrow>
             ds_yAxisID (datasets (chartData getTime data symbols startDate endDate) ! k)
               = ''y-percent''"
    by (simp add: nth_datasets [OF ne] ds_yAxisID_dataset)
  moreover have "''y-exchange'' \<noteq> ''y-percent''" by simp
  ultimately show ?thesis by blast
qed

text \<open>
  Witness for C3: the spec's scenario, \<^verbatim>\<open>USDJPY=X\<close> at 150, 151, 149 beside \<^verbatim>\<open>ABC\<close>.
\<close>

theorem passthrough_series_witness:
  "map pt_y (ds_data (datasets (chartData exampleTime [abcSeries, usdSeries]
       [''ABC'', ''USDJPY=X''] ''2024-01-01'' ''2024-01-03'') ! 1))
     = [Some (Finite 150), Some (Finite 151), Some (Finite 149)]
   \<and> ds_yAxisID (datasets (chartData exampleTime [abcSeries, usdSeries]
       [''ABC'', ''USDJPY=X''] ''2024-01-01'' ''2024-01-03'') ! 1) = ''y-exchange''
   \<and> ds_yAxisID (datasets (chartData exampleTime [abcSeries, usdSeries]
       [''ABC'', ''USDJPY=X''] ''2024-01-01'' ''2024-01-03'') ! 0) = ''y-percent''"
proof -
  have h1: "[''ABC'', ''USDJPY=X''] \<noteq> []" by simp
  have h2: "1 < length [abcSeries, usdSeries]" by simp
  have h3: "js_index [''ABC'', ''USDJPY=X''] 1 = Some ''USDJPY=X''" by code_simp
  have h4: "0 < length [abcSeries, usdSeries]" by simp
  have h5: "js_index [''ABC'', ''USDJPY=X''] 0 \<noteq> Some ''USDJPY=X''" by code_simp
  have v: "validData exampleTime (exampleTime ''2024-01-01'') (exampleTime ''2024-01-03'')
             usdSeries = usdSeries"
    by code_simp
  have c: "map close usdSeries = [Some (Finite 150), Some (Finite 151), Some (Finite 149)]"
    by code_simp
  note t = passthrough_series [OF h1 h2 h3, of exampleTime "''2024-01-01''" "''2024-01-03''"]
  from t have "map pt_y (ds_data (datasets (chartData exampleTime [abcSeries, usdSeries]
       [''ABC'', ''USDJPY=X''] ''2024-01-01'' ''2024-01-03'') ! 1)) = map close usdSeries"
    by (simp add: v comp_def)
  moreover
  from t have "ds_yAxisID (datasets (chartData exampleTime [abcSeries, usdSeries]
       [''ABC'', ''USDJPY=X''] ''2024-01-01'' ''2024-01-03'') ! 1) = ''y-exchange''"
    by blast
  moreover
  from t h4 h5 have "ds_yAxisID (datasets (chartData exampleTime [abcSeries, usdSeries]
       [''ABC'', ''USDJPY=X''] ''2024-01-01'' ''2024-01-03'') ! 0) = ''y-percent''"
    by blast
  ultimately show ?thesis
    using c by simp
qed

subsection \<open>The window\<close>

text \<open>
  C4. Every point of every dataset has its timestamp inside the window, bounds
  included; and a raw point whose timestamp is not inside the window (before the
  start, after the end, or not a date at all) contributes no point to the dataset of
  its series. This holds for every window, also one whose start is after its end.
\<close>

theorem points_within_window:
  "(\<forall>ds \<in> set (datasets (chartData getTime data symbols startDate endDate)).
      \<forall>p \<in> set (ds_data ds).
        js_ge (pt_x p) (getTime startDate) \<and> js_le (pt_x p) (getTime endDate))
   \<and> (\<forall>i < length (datasets (chartData getTime data symbols startDate endDate)).
        \<forall>r \<in> set (data ! i).
          \<not> (js_ge (getTime (date r)) (getTime startDate)
               \<and> js_le (getTime (date r)) (getTime endDate)) \<longrightarrow>
          getTime (date r) \<notin>
            pt_x ` set (ds_data (datasets (chartData getTime data symbols startDate endDate) ! i)))"
proof -
  have inside: "js_ge (pt_x p) (getTime startDate) \<and> js_le (pt_x p) (getTime endDate)"
    if "ds \<in> set (datasets (chartData getTime data symbols startDate endDate))"
      and "p \<in> set (ds_data ds)" for ds p
  proof -
    from that(1) obtain i where
      "ds = dataset getTime symbols (getTime startDate) (getTime endDate) i (data ! i)"
      using in_datasetsD by blast
    with that(2) show ?thesis
      by (auto simp: ds_data_dataset validData_set toChartPoint_sel)
  qed
  have "getTime (date r) \<notin>
          pt_x ` set (ds_data (datasets (chartData getTime data symbols startDate endDate) ! i))"
    if "i < length (datasets (chartData getTime data symbols startDate endDate))"
      and "\<not> (js_ge (getTime (date r)) (getTime startDate)
               \<and> js_le (getTime (date r)) (getTime endDate))" for i r
  proof
    assume "getTime (date r) \<in>
          pt_x ` set (ds_data (datasets (chartData getTime data symbols startDate endDate) ! i))"
    then obtain p where
      p: "p \<in> set (ds_data (datasets (chartData getTime data symbols startDate endDate) ! i))"
      and x: "pt_x p = getTime (date r)"
      by auto
    from that(1) have
      "datasets (chartData getTime data symbols startDate endDate) ! i
         \<in> set (datasets (chartData getTime data symbols startDate endDate))"
      by (rule nth_mem)
    from inside [OF this p] x that(2) show False by simp
  qed
  with inside show ?thesis by blast
qed

text \<open>
  Witness for C4: of the five points of \<open>abcSeries\<close> the three inside the window are
  plotted; the timestamp of the first one (2023-12-31) is not among them.
\<close>

theorem points_within_window_witness:
  "map (map pt_x \<circ> ds_data) (datasets (chartData exampleTime [abcSeries] [''ABC'']
       ''2024-01-01'' ''2024-01-03''))
     = [[Finite 1704067200000, Finite 1704153600000, Finite 1704240000000]]
   \<and> js_ge (pt_x (ds_data (datasets (chartData exampleTime [abcSeries] [''ABC'']
          ''2024-01-01'' ''2024-01-03'') ! 0) ! 2)) (exampleTime ''2024-01-01'')
   \<and> js_le (pt_x (ds_data (datasets (chartData exampleTime [abcSeries] [''ABC'']
          ''2024-01-01'' ''2024-01-03'') ! 0) ! 2)) (exampleTime ''2024-01-03'')
   \<and> exampleTime (date (pt ''2023-12-31'' (Some (Finite 90)))) \<notin>
        pt_x ` set (ds_data (datasets (chartData exampleTime [abcSeries] [''ABC'']
          ''2024-01-01'' ''2024-01-03'') ! 0))"
proof -
  let ?C = "chartData exampleTime [abcSeries] [''ABC''] ''2024-01-01'' ''2024-01-03''"
  have a: "map (map pt_x \<circ> ds_data) (datasets ?C)
     = [[Finite 1704067200000, Finite 1704153600000, Finite 1704240000000]]"
    by code_simp
  have h1: "0 < length (datasets ?C)"
    by code_simp
  have h1': "2 < length (ds_data (datasets ?C ! 0))"
    by code_simp
  have h2: "pt ''2023-12-31'' (Some (Finite 90)) \<in> set ([abcSeries] ! 0)"
    by (simp add: abcSeries_def)
  have h3: "\<not> (js_ge (exampleTime (date (pt ''2023-12-31'' (Some (Finite 90)))))
                  (exampleTime ''2024-01-01'')
               \<and> js_le (exampleTime (date (pt ''2023-12-31'' (Some (Finite 90)))))
                  (exampleTime ''2024-01-03''))"
    by code_simp
  from h1 have m1: "datasets ?C ! 0 \<in> set (datasets ?C)"
    by (rule nth_mem)
  from h1' have m2: "ds_data (datasets ?C ! 0) ! 2 \<in> set (ds_data (datasets ?C ! 0))"
    by (rule nth_mem)
  note t = points_within_window [of exampleTime "[abcSeries]" "[''ABC'']"
      "''2024-01-01''" "''2024-01-03''"]
  from t m1 m2 have "js_ge (pt_x (ds_data (datasets ?C ! 0) ! 2)) (exampleTime ''2024-01-01'')
     \<and> js_le (pt_x (ds_data (datasets ?C ! 0) ! 2)) (exampleTime ''2024-01-03'')"
    by blast
  moreover
  from t h1 h2 h3 have "exampleTime (date (pt ''2023-12-31'' (Some (Finite 90)))) \<notin>
        pt_x ` set (ds_data (datasets ?C ! 0))"
    by blast
  ultimately show ?thesis
    using a by blast
qed

subsection \<open>Points without a price\<close>

text \<open>
  C5. The dataset of a series lists exactly the raw points of that series that have a
  price and lie inside the window, in the order of the raw series: read off as
  (timestamp, original price), the points of the dataset are the raw points that pass
  the filter, nothing dropped beyond it and nothing inserted. One dataset is built
  per raw series (unless the symbol list is empty, when none is built).
\<close>

theorem absent_points_dropped:
  assumes ne: "symbols \<noteq> []" and i: "i < length data"
  shows "length (datasets (chartData getTime data symbols startDate endDate)) = length data
       \<and> map (\<lambda>p. (pt_x p, pt_originalY p))
           (ds_data (datasets (chartData getTime data symbols startDate endDate) ! i)) =
         map (\<lambda>r. (getTime (date r), close r))
           (filter (\<lambda>r. close r \<noteq> None \<and> js_ge (getTime (date r)) (getTime startDate)
                          \<and> js_le (getTime (date r)) (getTime endDate))
              (data ! i))"
proof -
  from i have "data \<noteq> []" by auto
  then have "length (datasets (chartData getTime data symbols startDate endDate)) = length data"
    using ne by (simp add: length_datasets)
  moreover
  have "map (\<lambda>p. (pt_x p, pt_originalY p))
           (ds_data (datasets (chartData getTime data symbols startDate endDate) ! i)) =
         map (\<lambda>r. (getTime (date r), close r))
           (filter (\<lambda>r. close r \<noteq> None \<and> js_ge (getTime (date r)) (getTime startDate)
                          \<and> js_le (getTime (date r)) (getTime endDate))
              (data ! i))"
    by (simp add: nth_datasets [OF ne i] ds_data_dataset validData_def Let_def
        toChartPoint_sel comp_def)
  ultimately show ?thesis by blast
qed

text \<open>
  Witness for C5: the spec's scenario, no price on day 2; days 1 and 3 are plotted.
\<close>

theorem absent_points_dropped_witness:
  "map (\<lambda>p. (pt_x p, pt_originalY p))
     (ds_data (datasets (chartData exampleTime [gapSeries] [''ABC'']
        ''2024-01-01'' ''2024-01-03'') ! 0))
   = [(Finite 1704067200000, Some (Finite 100)), (Finite 1704240000000, Some (Finite 121))]"
proof -
  have h1: "[''ABC''] \<noteq> []" by simp
  have h2: "0 < length [gapSeries]" by simp
  have f: "map (\<lambda>r. (exampleTime (date r), close r))
           (filter (\<lambda>r. close r \<noteq> None
                          \<and> js_ge (exampleTime (date r)) (exampleTime ''2024-01-01'')
                          \<and> js_le (exampleTime (date r)) (exampleTime ''2024-01-03''))
              ([gapSeries] ! 0))
        = [(Finite 1704067200000, Some (Finite 100)), (Finite 1704240000000, Some (Finite 121))]"
    by code_simp
  from absent_points_dropped [OF h1 h2, of exampleTime "''2024-01-01''" "''2024-01-03''"] f
  show ?thesis by simp
qed

subsection \<open>The empty state\<close>

text \<open>
  C6 as written does not hold where it speaks of series that become empty after the
  window filter: the component tests the lengths of \<^verbatim>\<open>data\<close> and \<^verbatim>\<open>symbols\<close>, not the
  filtered series. A series wholly outside the window gives one dataset without
  points, and the chart element is returned, not the message.
\<close>

theorem empty_after_filter_counterexample:
  "map ds_data (datasets (chartData exampleTime [oldSeries] [''ABC'']
       ''2024-01-01'' ''2024-01-03'')) = [[]]
   \<and> StockChart exampleTime False [oldSeries] [''ABC''] ''2024-01-01'' ''2024-01-03'' True
       = ChartElement
           (chartData exampleTime [oldSeries] [''ABC''] ''2024-01-01'' ''2024-01-03'')
           (options exampleTime False ''2024-01-01'' ''2024-01-03'' True)"
  by code_simp

text \<open>
  C6, amended. An empty symbol list gives the empty dataset list (a value, not an
  error). The dataset list is empty exactly when the list of raw series or the list
  of symbols is empty, and exactly then the component returns the message
  \<^verbatim>\<open>No data available to display\<close> and no chart element. Otherwise it returns the
  chart element with one dataset per raw series, also when every one of these
  datasets is without points.
\<close>

theorem empty_state:
  "chartData getTime data [] startDate endDate = \<lparr> labels = [], datasets = [] \<rparr>
   \<and> (datasets (chartData getTime data symbols startDate endDate) = []
        \<longleftrightarrow> data = [] \<or> symbols = [])
   \<and> (StockChart getTime isDarkMode data symbols startDate endDate showTooltip
         = MessageDiv ''No data available to display''
        \<longleftrightarrow> datasets (chartData getTime data symbols startDate endDate) = [])
   \<and> (datasets (chartData getTime data symbols startDate endDate) \<noteq> [] \<longrightarrow>
        StockChart getTime isDarkMode data symbols startDate endDate showTooltip
          = ChartElement (chartData getTime data symbols startDate endDate)
              (options getTime isDarkMode startDate endDate showTooltip)
        \<and> length (datasets (chartData getTime data symbols startDate endDate)) = length data)"
proof -
  have a: "chartData getTime data [] startDate endDate = \<lparr> labels = [], datasets = [] \<rparr>"
    by (simp add: chartData_def)
  have b: "datasets (chartData getTime data symbols startDate endDate) = []
             \<longleftrightarrow> data = [] \<or> symbols = []"
  proof (cases "data = [] \<or> symbols = []")
    case True
    then show ?thesis by (simp add: datasets_guard)
  next
    case False
    then have "length (datasets (chartData getTime data symbols startDate endDate)) \<noteq> 0"
      by (simp add: length_datasets)
    with False show ?thesis by auto
  qed
  have c: "StockChart getTime isDarkMode data symbols startDate endDate showTooltip
         = MessageDiv ''No data available to display'' \<longleftrightarrow> data = [] \<or> symbols = []"
    by (simp add: StockChart_def)
  have d: "StockChart getTime isDarkMode data symbols startDate endDate showTooltip
          = ChartElement (chartData getTime data symbols startDate endDate)
              (options getTime isDarkMode startDate endDate showTooltip)
        \<and> length (datasets (chartData getTime data symbols startDate endDate)) = length data"
    if "\<not> (data = [] \<or> symbols = [])"
    using that by (simp add: StockChart_def length_datasets)
  from a b c d show ?thesis by blast
qed

text \<open>
  Witness for the amended C6: no symbol, hence the message; one series outside the
  window, hence a chart element with one dataset.
\<close>

theorem empty_state_witness:
  "StockChart exampleTime False [abcSeries] [] ''2024-01-01'' ''2024-01-03'' True
     = MessageDiv ''No data available to display''
   \<and> StockChart exampleTime False [oldSeries] [''ABC''] ''2024-01-01'' ''2024-01-03'' True
     = ChartElement
         (chartData exampleTime [oldSeries] [''ABC''] ''2024-01-01'' ''2024-01-03'')
         (options exampleTime False ''2024-01-01'' ''2024-01-03'' True)
   \<and> length (datasets (chartData exampleTime [oldSeries] [''ABC'']
         ''2024-01-01'' ''2024-01-03'')) = length [oldSeries]"
proof -
  have h1: "datasets (chartData exampleTime [abcSeries] [] ''2024-01-01'' ''2024-01-03'') = []"
    by code_simp
  have h2: "datasets (chartData exampleTime [oldSeries] [''ABC'']
              ''2024-01-01'' ''2024-01-03'') \<noteq> []"
    by code_simp
  from empty_state [of exampleTime "[abcSeries]" "''2024-01-01''" "''2024-01-03''" "[]"
      False True] h1
  have "StockChart exampleTime False [abcSeries] [] ''2024-01-01'' ''2024-01-03'' True
     = MessageDiv ''No data available to display''"
    by blast
  moreover
  from empty_state [of exampleTime "[oldSeries]" "''2024-01-01''" "''2024-01-03''" "[''ABC'']"
      False True] h2
  have "StockChart exampleTime False [oldSeries] [''ABC''] ''2024-01-01'' ''2024-01-03'' True
     = ChartElement
         (chartData exampleTime [oldSeries] [''ABC''] ''2024-01-01'' ''2024-01-03'')
         (options exampleTime False ''2024-01-01'' ''2024-01-03'' True)
   \<and> length (datasets (chartData exampleTime [oldSeries] [''ABC'']
         ''2024-01-01'' ''2024-01-03'')) = length [oldSeries]"
    by blast
  ultimately show ?thesis by blast
qed

subsection \<open>Inputs of the wrong shape\<close>

text \<open>
  C7 as written does not hold: nothing compares the two lengths and nothing tests
  whether a date parsed. With two raw series and the one symbol \<^verbatim>\<open>ABC\<close>, two datasets
  are built; the second one has no label (\<^verbatim>\<open>symbols[1]\<close> is \<^verbatim>\<open>undefined\<close>) and is
  percent-transformed (150, 151, 149 plotted as 0, 0.6666666666666667,
  -0.6666666666666667), although its raw series is the exchange rate. With a start
  date that does not parse, the one dataset is built without points.
\<close>

theorem shape_mismatch_counterexample:
  "length [abcSeries, usdSeries] \<noteq> length [''ABC'']
   \<and> map (\<lambda>ds. (ds_label ds, map pt_y (ds_data ds)))
         (datasets (chartData exampleTime [abcSeries, usdSeries] [''ABC'']
            ''2024-01-01'' ''2024-01-03''))
       = [(Some ''ABC'', [Some (Finite 0), Some (Finite 10), Some (Finite 21)]),
          (None, [Some (Finite 0), Some (Finite (3002399751580331 / 4503599627370496)),
                  Some (Finite (- 3002399751580331 / 4503599627370496))])]
   \<and> exampleTime ''not-a-date'' = NaN
   \<and> map ds_data (datasets (chartData exampleTime [abcSeries] [''ABC'']
        ''not-a-date'' ''2024-01-03'')) = [[]]"
  by code_simp

text \<open>
  C7, amended. When neither list is empty, the component raises no error whatever
  the two lengths are: it builds one dataset per raw series; the dataset at index
  \<open>i\<close> is labelled with the symbol at index \<open>i\<close> if there is one; if there is none
  it has no label, is on the percent axis, and is percent-transformed: its points
  are the in-window points with a price, each plotted at \<^verbatim>\<open>((c - b) / b) * 100\<close> for
  its price \<open>c\<close> and the first in-window price \<open>b\<close>. Symbols beyond the number of raw
  series are not used. A window bound that does not parse (timestamp \<^verbatim>\<open>NaN\<close>) makes
  every dataset empty of points, again without an error.
\<close>

theorem shape_mismatch_silent:
  assumes "data \<noteq> []" and "symbols \<noteq> []"
  shows "length (datasets (chartData getTime data symbols startDate endDate)) = length data
       \<and> (\<forall>i < length data.
            ds_label (datasets (chartData getTime data symbols startDate endDate) ! i)
              = (if i < length symbols then Some (symbols ! i) else None)
          \<and> (\<not> i < length symbols \<longrightarrow>
               ds_yAxisID (datasets (chartData getTime data symbols startDate endDate) ! i)
                 = ''y-percent''
             \<and> (\<forall>v vs b.
                  validData getTime (getTime startDate) (getTime endDate) (data ! i) = v # vs
                    \<and> close v = Some b \<longrightarrow>
                  length (ds_data (datasets (chartData getTime data symbols startDate endDate) ! i))
                    = length (v # vs)
                  \<and> (\<forall>j < length (v # vs). \<forall>c. close ((v # vs) ! j) = Some c \<longrightarrow>
                        pt_y (ds_data (datasets
                           (chartData getTime data symbols startDate endDate) ! i) ! j)
                          = Some (js_mul (js_div (js_sub c b) b) (Finite 100))))))
       \<and> (getTime startDate = NaN \<or> getTime endDate = NaN \<longrightarrow>
            (\<forall>ds \<in> set (datasets (chartData getTime data symbols startDate endDate)).
               ds_data ds = []))"
proof (intro conjI allI impI ballI)
  show "length (datasets (chartData getTime data symbols startDate endDate)) = length data"
    using assms by (simp add: length_datasets)
next
  fix i assume "i < length data"
  then show "ds_label (datasets (chartData getTime data symbols startDate endDate) ! i)
              = (if i < length symbols then Some (symbols ! i) else None)"
    by (simp add: nth_datasets [OF assms(2)] ds_label_dataset js_index_def)
next
  fix i assume "i < length data" and "\<not> i < length symbols"
  then show "ds_yAxisID (datasets (chartData getTime data symbols startDate endDate) ! i)
                 = ''y-percent''"
    by (simp add: nth_datasets [OF assms(2)] ds_yAxisID_dataset js_index_def)
next
  fix i v vs b
  assume i: "i < length data" and n: "\<not> i < length symbols"
    and a: "validData getTime (getTime startDate) (getTime endDate) (data ! i) = v # vs
              \<and> close v = Some b"
  from n have nex: "js_index symbols i \<noteq> Some ''USDJPY=X''"
    by (simp add: js_index_def)
  from a show "length (ds_data (datasets (chartData getTime data symbols startDate endDate) ! i))
                    = length (v # vs)"
    by (simp add: percent_dataset [OF assms(2) i nex])
next
  fix i v vs b j c
  assume i: "i < length data" and n: "\<not> i < length symbols"
    and a: "validData getTime (getTime startDate) (getTime endDate) (data ! i) = v # vs
              \<and> close v = Some b"
    and j: "j < length (v # vs)" and c: "close ((v # vs) ! j) = Some c"
  from n have nex: "js_index symbols i \<noteq> Some ''USDJPY=X''"
    by (simp add: js_index_def)
  from a have vd: "validData getTime (getTime startDate) (getTime endDate) (data ! i) = v # vs"
    and cv: "close v = Some b"
    by blast+
  show "pt_y (ds_data (datasets (chartData getTime data symbols startDate endDate) ! i) ! j)
          = Some (js_mul (js_div (js_sub c b) b) (Finite 100))"
    using assms(2) i nex vd cv j c by (rule percent_point)
next
  fix ds
  assume n: "getTime startDate = NaN \<or> getTime endDate = NaN"
    and "ds \<in> set (datasets (chartData getTime data symbols startDate endDate))"
  then obtain i where
    "ds = dataset getTime symbols (getTime startDate) (getTime endDate) i (data ! i)"
    using in_datasetsD by blast
  then show "ds_data ds = []"
    by (simp add: ds_data_dataset validData_NaN [OF n])
qed

text \<open>
  Witness for the amended C7: two raw series for one symbol (the second one,
  unlabelled, has its price 151 plotted at 0.6666666666666667), and a start date that
  does not parse.
\<close>

theorem shape_mismatch_silent_witness:
  "length (datasets (chartData exampleTime [abcSeries, usdSeries] [''ABC'']
       ''2024-01-01'' ''2024-01-03'')) = 2
   \<and> ds_label (datasets (chartData exampleTime [abcSeries, usdSeries] [''ABC'']
       ''2024-01-01'' ''2024-01-03'') ! 1) = None
   \<and> ds_yAxisID (datasets (chartData exampleTime [abcSeries, usdSeries] [''ABC'']
       ''2024-01-01'' ''2024-01-03'') ! 1) = ''y-percent''
   \<and> pt_y (ds_data (datasets (chartData exampleTime [abcSeries, usdSeries] [''ABC'']
       ''2024-01-01'' ''2024-01-03'') ! 1) ! 1)
       = Some (Finite (3002399751580331 / 4503599627370496))
   \<and> ds_data (datasets (chartData exampleTime [abcSeries] [''ABC'']
       ''not-a-date'' ''2024-01-03'') ! 0) = []"
proof -
  let ?N = "chartData exampleTime [abcSeries] [''ABC''] ''not-a-date'' ''2024-01-03''"
  let ?v = "pt ''2024-01-01'' (Some (Finite 150))"
  let ?vs = "[pt ''2024-01-02'' (Some (Finite 151)), pt ''2024-01-03'' (Some (Finite 149))]"
  have h1: "[abcSeries, usdSeries] \<noteq> []" and h1': "[abcSeries] \<noteq> []" by simp_all
  have h2: "[''ABC''] \<noteq> []" by simp
  have h3: "1 < length [abcSeries, usdSeries]" and h4: "\<not> 1 < length [''ABC'']" by simp_all
  have h5: "exampleTime ''not-a-date'' = NaN \<or> exampleTime ''2024-01-03'' = NaN"
    by code_simp
  have h6: "validData exampleTime (exampleTime ''2024-01-01'') (exampleTime ''2024-01-03'')
              ([abcSeries, usdSeries] ! 1) = ?v # ?vs \<and> close ?v = Some (Finite 150)"
    by code_simp
  have h7: "1 < length (?v # ?vs)" by simp
  have h8: "close ((?v # ?vs) ! 1) = Some (Finite 151)" by code_simp
  have a: "js_mul (js_div (js_sub (Finite 151) (Finite 150)) (Finite 150)) (Finite 100)
             = Finite (3002399751580331 / 4503599627370496)"
    by code_simp
  note t = shape_mismatch_silent [OF h1 h2, of exampleTime "''2024-01-01''" "''2024-01-03''"]
  from t have "length (datasets (chartData exampleTime [abcSeries, usdSeries] [''ABC'']
       ''2024-01-01'' ''2024-01-03'')) = 2"
    by simp
  moreover
  from t h3 h4 have
    "ds_label (datasets (chartData exampleTime [abcSeries, usdSeries] [''ABC'']
       ''2024-01-01'' ''2024-01-03'') ! 1)
       = (if 1 < length [''ABC''] then Some ([''ABC''] ! 1) else None)
     \<and> ds_yAxisID (datasets (chartData exampleTime [abcSeries, usdSeries] [''ABC'']
       ''2024-01-01'' ''2024-01-03'') ! 1) = ''y-percent''"
    by blast
  moreover
  from t h3 h4 h6 h7 h8 have
    "pt_y (ds_data (datasets (chartData exampleTime [abcSeries, usdSeries] [''ABC'']
       ''2024-01-01'' ''2024-01-03'') ! 1) ! 1)
       = Some (js_mul (js_div (js_sub (Finite 151) (Finite 150)) (Finite 150)) (Finite 100))"
    by blast
  moreover
  note u = shape_mismatch_silent [OF h1' h2, of exampleTime "''not-a-date''" "''2024-01-03''"]
  from u have "length (datasets ?N) = length [abcSeries]" by blast
  then have "datasets ?N ! 0 \<in> set (datasets ?N)" by simp
  with u h5 have "ds_data (datasets ?N ! 0) = []"
    by blast
  ultimately show ?thesis
    using a by simp
qed

section \<open>Properties of fetchStockData\<close>

subsection \<open>Auxiliary facts\<close>

lemma set_add_set: "set (set_add s d) = insert d (set s)"
  by (auto simp: set_add_def)

lemma set_add_distinct: "distinct s \<Longrightarrow> distinct (set_add s d)"
  by (simp add: set_add_def)

lemma fold_set_add:
  "set (fold (\<lambda>point s'. set_add s' (date point)) ps s) = set s \<union> date ` set ps"
  by (induction ps arbitrary: s) (auto simp: set_add_set)

lemma fold_set_add_distinct:
  "distinct s \<Longrightarrow> distinct (fold (\<lambda>point s'. set_add s' (date point)) ps s)"
  by (induction ps arbitrary: s) (auto simp: set_add_distinct)

lemma fold_fold_set:
  "set (fold (\<lambda>ps s. fold (\<lambda>point s'. set_add s' (date point)) ps s) results s0) =
     set s0 \<union> (\<Union>ps \<in> set results. date ` set ps)"
  by (induction results arbitrary: s0) (auto simp: fold_set_add)

lemma fold_fold_distinct:
  "distinct s0 \<Longrightarrow>
   distinct (fold (\<lambda>ps s. fold (\<lambda>point s'. set_add s' (date point)) ps s) results s0)"
  by (induction results arbitrary: s0) (auto simp: fold_set_add_distinct)

lemma set_allDates: "set (allDates results) = (\<Union>ps \<in> set results. date ` set ps)"
  by (simp add: allDates_def fold_fold_set)

lemma distinct_allDates: "distinct (allDates results)"
  by (simp add: allDates_def fold_fold_distinct)

lemma sortedDates_props:
  "sorted (sortedDates results)" "distinct (sortedDates results)"
  "set (sortedDates results) = (\<Union>ps \<in> set results. date ` set ps)"
  by (simp_all add: sortedDates_def set_allDates distinct_allDates)

lemma upd_map_add: "m0(k \<mapsto> v) ++ M = m0 ++ (map_of [(k, v)] ++ M)"
  by (rule ext) (simp add: map_add_def split: option.splits)

text \<open>The \<^verbatim>\<open>Map\<close> built from the entries is the lookup in the reversed entry list: the
  last entry for a date is the one found.\<close>

lemma fold_upd_map_of:
  "fold (\<lambda>point m. m(date point \<mapsto> close point)) ps m0 =
     m0 ++ map_of (rev (map (\<lambda>p. (date p, close p)) ps))"
proof (induction ps arbitrary: m0)
  case Nil
  show ?case by simp
next
  case (Cons p ps)
  have "fold (\<lambda>point m. m(date point \<mapsto> close point)) (p # ps) m0 =
        m0(date p \<mapsto> close p) ++ map_of (rev (map (\<lambda>p. (date p, close p)) ps))"
    by (simp only: fold_simps Cons.IH)
  also have "\<dots> = m0 ++ (map_of [(date p, close p)]
                      ++ map_of (rev (map (\<lambda>p. (date p, close p)) ps)))"
    by (rule upd_map_add)
  also have "\<dots> = m0 ++ map_of (rev (map (\<lambda>p. (date p, close p)) (p # ps)))"
    by (simp only: list.map rev.simps map_of_append)
  finally show ?case .
qed

lemma dataMap_map_of: "dataMap ps = map_of (rev (map (\<lambda>p. (date p, close p)) ps))"
  by (simp add: dataMap_def fold_upd_map_of)

lemma dataMap_Some:
  "dataMap ps d = Some c \<Longrightarrow> \<exists>q \<in> set ps. date q = d \<and> close q = c"
  by (auto simp: dataMap_map_of dest!: map_of_SomeD)

lemma dataMap_distinct:
  assumes "distinct (map date ps)" "q \<in> set ps"
  shows "dataMap ps (date q) = Some (close q)"
proof -
  have "distinct (map fst (rev (map (\<lambda>p. (date p, close p)) ps)))"
    using assms(1) by (simp add: rev_map [symmetric] comp_def)
  moreover have "(date q, close q) \<in> set (rev (map (\<lambda>p. (date p, close p)) ps))"
    using assms(2) by auto
  ultimately show ?thesis
    unfolding dataMap_map_of by (rule map_of_is_SomeI)
qed

lemma length_fetchStockData: "length (fetchStockData request symbols) = length symbols"
  by (simp add: fetchStockData_def Let_def)

lemma nth_fetchStockData:
  "i < length symbols \<Longrightarrow>
   fetchStockData request symbols ! i =
     map (\<lambda>d. \<lparr> date = d,
                 close = (case dataMap (fetchSingleStockData request (symbols ! i)) d of
                            None \<Rightarrow> None | Some c \<Rightarrow> c) \<rparr>)
       (sortedDates (map (fetchSingleStockData request) symbols))"
  by (simp add: fetchStockData_def Let_def)

lemma close_fetchStockData:
  assumes "i < length symbols" and "p \<in> set (fetchStockData request symbols ! i)"
  shows "close p = (case dataMap (fetchSingleStockData request (symbols ! i)) (date p) of
                      None \<Rightarrow> None | Some c \<Rightarrow> c)"
  using assms(2) by (auto simp: nth_fetchStockData [OF assms(1)])

subsection \<open>Alignment of the returned series\<close>

text \<open>
  C10. \<^verbatim>\<open>fetchStockData\<close> returns one series per requested symbol, in the order of the
  symbols. The dates of every returned series are the same list: the dates fetched for
  any of the symbols, each once, in ascending order (the order of the date strings).
  In the series of a symbol, a point has a price only if that price was fetched for
  the symbol on that date; so its \<^verbatim>\<open>close\<close> is \<^verbatim>\<open>null\<close> on a date for which no price
  was fetched for the symbol; and when the fetched dates of the symbol are distinct,
  its \<^verbatim>\<open>close\<close> on a fetched date is the fetched one.
\<close>

theorem fetchStockData_aligned:
  "length (fetchStockData request symbols) = length symbols
   \<and> sorted (sortedDates (map (fetchSingleStockData request) symbols))
   \<and> distinct (sortedDates (map (fetchSingleStockData request) symbols))
   \<and> set (sortedDates (map (fetchSingleStockData request) symbols)) =
       (\<Union>sym \<in> set symbols. date ` set (fetchSingleStockData request sym))
   \<and> (\<forall>i < length symbols.
         map date (fetchStockData request symbols ! i) =
           sortedDates (map (fetchSingleStockData request) symbols)
       \<and> (\<forall>p \<in> set (fetchStockData request symbols ! i).
            (\<forall>c. close p = Some c \<longrightarrow>
                 (\<exists>q \<in> set (fetchSingleStockData request (symbols ! i)).
                     date q = date p \<and> close q = Some c))
          \<and> ((\<forall>q \<in> set (fetchSingleStockData request (symbols ! i)).
                  date q = date p \<longrightarrow> close q = None) \<longrightarrow> close p = None)
          \<and> (distinct (map date (fetchSingleStockData request (symbols ! i))) \<longrightarrow>
               (\<forall>q \<in> set (fetchSingleStockData request (symbols ! i)).
                  date q = date p \<longrightarrow> close p = close q))))"
proof (intro conjI allI impI ballI)
  show "length (fetchStockData request symbols) = length symbols"
    by (rule length_fetchStockData)
  show "sorted (sortedDates (map (fetchSingleStockData request) symbols))"
    and "distinct (sortedDates (map (fetchSingleStockData request) symbols))"
    by (rule sortedDates_props)+
  show "set (sortedDates (map (fetchSingleStockData request) symbols)) =
       (\<Union>sym \<in> set symbols. date ` set (fetchSingleStockData request sym))"
    by (simp add: sortedDates_props)
next
  fix i assume i: "i < length symbols"
  show "map date (fetchStockData request symbols ! i) =
           sortedDates (map (fetchSingleStockData request) symbols)"
    by (simp add: nth_fetchStockData [OF i] comp_def)
next
  fix i p c
  assume i: "i < length symbols" and p: "p \<in> set (fetchStockData request symbols ! i)"
    and c: "close p = Some c"
  from close_fetchStockData [OF i p] c
  have "dataMap (fetchSingleStockData request (symbols ! i)) (date p) = Some (Some c)"
    by (simp split: option.splits)
  then show "\<exists>q \<in> set (fetchSingleStockData request (symbols ! i)).
               date q = date p \<and> close q = Some c"
    by (rule dataMap_Some)
next
  fix i p
  assume i: "i < length symbols" and p: "p \<in> set (fetchStockData request symbols ! i)"
    and n: "\<forall>q \<in> set (fetchSingleStockData request (symbols ! i)).
              date q = date p \<longrightarrow> close q = None"
  note cp = close_fetchStockData [OF i p]
  show "close p = None"
  proof (cases "dataMap (fetchSingleStockData request (symbols ! i)) (date p)")
    case None
    with cp show ?thesis by simp
  next
    case (Some c)
    from dataMap_Some [OF Some] n have "c = None" by auto
    with cp Some show ?thesis by simp
  qed
next
  fix i p q
  assume i: "i < length symbols" and p: "p \<in> set (fetchStockData request symbols ! i)"
    and d: "distinct (map date (fetchSingleStockData request (symbols ! i)))"
    and q: "q \<in> set (fetchSingleStockData request (symbols ! i))" "date q = date p"
  from dataMap_distinct [OF d q(1)] q(2) close_fetchStockData [OF i p]
  show "close p = close q"
    by simp
qed

text \<open>
  Witness for C10: three symbols; the request for the second fails, the first
  answers out of order. All three returned series run over the same three dates.
\<close>

theorem fetchStockData_aligned_witness:
  "fetchStockData exampleRequest [''A'', ''B'', ''C''] =
     [[pt ''2024-01-01'' None, pt ''2024-01-02'' (Some (Finite 1)), pt ''2024-01-03'' None],
      [pt ''2024-01-01'' None, pt ''2024-01-02'' None, pt ''2024-01-03'' None],
      [pt ''2024-01-01'' None, pt ''2024-01-02'' None, pt ''2024-01-03'' (Some (Finite 7))]]
   \<and> sortedDates (map (fetchSingleStockData exampleRequest) [''A'', ''B'', ''C''])
       = [''2024-01-01'', ''2024-01-02'', ''2024-01-03'']
   \<and> map date (fetchStockData exampleRequest [''A'', ''B'', ''C''] ! 1) =
         sortedDates (map (fetchSingleStockData exampleRequest) [''A'', ''B'', ''C''])"
proof -
  have i: "1 < length [''A'', ''B'', ''C'']" by simp
  have a: "fetchStockData exampleRequest [''A'', ''B'', ''C''] =
     [[pt ''2024-01-01'' None, pt ''2024-01-02'' (Some (Finite 1)), pt ''2024-01-03'' None],
      [pt ''2024-01-01'' None, pt ''2024-01-02'' None, pt ''2024-01-03'' None],
      [pt ''2024-01-01'' None, pt ''2024-01-02'' None, pt ''2024-01-03'' (Some (Finite 7))]]"
    by code_simp
  have b: "sortedDates (map (fetchSingleStockData exampleRequest) [''A'', ''B'', ''C''])
       = [''2024-01-01'', ''2024-01-02'', ''2024-01-03'']"
    by code_simp
  from fetchStockData_aligned [of exampleRequest "[''A'', ''B'', ''C'']"] i
  have "map date (fetchStockData exampleRequest [''A'', ''B'', ''C''] ! 1) =
         sortedDates (map (fetchSingleStockData exampleRequest) [''A'', ''B'', ''C''])"
    by blast
  with a b show ?thesis by blast
qed

end
